theory Spec2Isabelle
  imports Complex_Main
begin

section \<open>Python text operations used by the module\<close>

text \<open>
  The module \<^verbatim>\<open>plugins/modules/clustering/pacemaker_cluster.py\<close> works on the text
  that the \<^verbatim>\<open>pcs\<close> commands print. A Python 3 \<^verbatim>\<open>str\<close> is modelled as a
  \<^typ>\<open>string\<close>, one \<^typ>\<open>char\<close> per code point below 256. The operations below
  are the ones the source calls: \<^verbatim>\<open>str.strip()\<close>, \<^verbatim>\<open>str.lower()\<close>,
  \<^verbatim>\<open>str.split(':')\<close>, \<^verbatim>\<open>str.splitlines()\<close> and the substring test
  \<^verbatim>\<open>a in b\<close>.
\<close>

definition is_space :: "char \<Rightarrow> bool" where
  "is_space c = (of_char c \<in> {9, 10, 11, 12, 13, 28, 29, 30, 31, 32, 133, 160 :: nat})"

definition is_linebreak :: "char \<Rightarrow> bool" where
  "is_linebreak c = (of_char c \<in> {10, 11, 12, 13, 28, 29, 30, 133 :: nat})"

definition lower_char :: "char \<Rightarrow> char" where
  "lower_char c =
     (let n = (of_char c :: nat)
      in if (65 \<le> n \<and> n \<le> 90) \<or> (192 \<le> n \<and> n \<le> 222 \<and> n \<noteq> 215)
         then char_of (n + 32) else c)"

definition py_strip :: "string \<Rightarrow> string" where
  "py_strip s = rev (dropWhile is_space (rev (dropWhile is_space s)))"

definition py_lower :: "string \<Rightarrow> string" where
  "py_lower s = map lower_char s"

text \<open>\<^verbatim>\<open>s.split(sep)\<close> for a one-character separator: always at least one piece.\<close>

fun split_acc :: "char \<Rightarrow> string \<Rightarrow> string \<Rightarrow> string list" where
  "split_acc sep acc [] = [acc]"
| "split_acc sep acc (c # cs) =
     (if c = sep then acc # split_acc sep [] cs else split_acc sep (acc @ [c]) cs)"

definition py_split :: "char \<Rightarrow> string \<Rightarrow> string list" where
  "py_split sep s = split_acc sep [] s"

text \<open>
  \<^verbatim>\<open>s.splitlines()\<close>: a carriage return followed by a line feed is one boundary, the
  text after the last boundary is a line only when it is not empty.
\<close>

fun splitlines_acc :: "string \<Rightarrow> string \<Rightarrow> string list" where
  "splitlines_acc acc [] = (if acc = [] then [] else [acc])"
| "splitlines_acc acc (c # cs) =
     (if c = CHR 0x0D \<and> cs \<noteq> [] \<and> hd cs = CHR 0x0A then acc # splitlines_acc [] (tl cs)
      else if is_linebreak c then acc # splitlines_acc [] cs
      else splitlines_acc (acc @ [c]) cs)"

definition py_splitlines :: "string \<Rightarrow> string list" where
  "py_splitlines s = splitlines_acc [] s"

text \<open>\<^verbatim>\<open>a in b\<close> on two strings: \<open>a\<close> occurs in \<open>b\<close> as a contiguous piece.\<close>

fun starts_with :: "string \<Rightarrow> string \<Rightarrow> bool" where
  "starts_with [] ys = True"
| "starts_with (x # xs) [] = False"
| "starts_with (x # xs) (y # ys) = (x = y \<and> starts_with xs ys)"

fun py_in :: "string \<Rightarrow> string \<Rightarrow> bool" where
  "py_in xs [] = (xs = [])"
| "py_in xs (y # ys) = (starts_with xs (y # ys) \<or> py_in xs ys)"


section \<open>The world the module runs in\<close>

text \<open>
  How a call ends other than by returning: \<^verbatim>\<open>module.exit_json\<close> and
  \<^verbatim>\<open>module.fail_json\<close> leave the process (success and failure), an uncaught
  exception ends it too.
\<close>

datatype pyexc = TypeError | IndexError | UnboundLocalError | OverflowError

datatype outval = Out_state string | Out_nodes "string list list"

datatype stop = Exit_json bool outval | Fail_json string | Raise pyexc

text \<open>
  \<^verbatim>\<open>module.run_command\<close> and \<^verbatim>\<open>time.time\<close> are the module's two windows on the
  outside; neither is part of this repository. An environment fixes
  \<^item> what the k-th command run does: it completes with an exit status, a standard output and
    a standard error, or \<^verbatim>\<open>run_command\<close> itself calls \<^verbatim>\<open>fail_json\<close> with a
    message, as it does when the command cannot be executed (the answer may depend on the
    command text);
  \<^item> what the k-th reading of the clock returns;
  \<^item> what the Python expression \<^verbatim>\<open>t + timeout\<close> of lines 152 and 180 evaluates to for a
    clock reading and an integer: a value of the clock's type, or an exception (the
    conversion of a large integer raises \<^verbatim>\<open>OverflowError\<close>).
  The type of clock readings is a parameter: the model takes neither the sum nor the
  comparison of Python's floats to be those of the real numbers. The world records the
  commands handed to \<^verbatim>\<open>run_command\<close> so far, in order, and the number of clock readings
  made.
\<close>

record 't env =
  run_command :: "nat \<Rightarrow> string \<Rightarrow> string + (int \<times> string \<times> string)"
  time_time :: "nat \<Rightarrow> 't"
  add_timeout :: "'t \<Rightarrow> int \<Rightarrow> pyexc + 't"

record world =
  cmds :: "string list"
  ticks :: nat

definition run :: "'t env \<Rightarrow> string \<Rightarrow> world \<Rightarrow> (stop + (int \<times> string \<times> string)) \<times> world" where
  "run e cmd w =
     ((case run_command e (length (cmds w)) cmd of
         Inl msg \<Rightarrow> Inl (Fail_json msg)
       | Inr r \<Rightarrow> Inr r),
      w\<lparr>cmds := cmds w @ [cmd]\<rparr>)"

definition now :: "'t env \<Rightarrow> world \<Rightarrow> 't \<times> world" where
  "now e w = (time_time e (ticks w), w\<lparr>ticks := Suc (ticks w)\<rparr>)"

definition PCS_CLUSTER_DOWN :: string where
  "PCS_CLUSTER_DOWN = ''Error: cluster is not currently running on this node''"

definition command_failed :: "string \<Rightarrow> string \<Rightarrow> string" where
  "command_failed cmd err =
     ''Command execution failed.'' @ [CHR 0x0A] @ ''Command: `'' @ cmd @ ''`'' @ [CHR 0x0A]
       @ ''Error: '' @ err"

definition failed_to_set :: "string \<Rightarrow> string" where
  "failed_to_set state = ''Failed to set the state `'' @ state @ ''` on the cluster'' @ [CHR 0x0A]"

definition cant_be_started :: string where
  "cant_be_started = ''Failed during the restart of the cluster, the cluster can't be started''"

definition cant_be_stopped :: string where
  "cant_be_stopped = ''Failed during the restart of the cluster, the cluster can't be stopped''"


section \<open>Status probes\<close>

text \<open>
  Lines 92 to 95 of \<^verbatim>\<open>get_cluster_status\<close>: the test reads
  \<^verbatim>\<open>out in _PCS_CLUSTER_DOWN\<close>, the output on the left of \<^verbatim>\<open>in\<close>.
\<close>

definition cluster_state_of :: "string \<Rightarrow> string" where
  "cluster_state_of out = (if py_in out PCS_CLUSTER_DOWN then ''offline'' else ''online'')"

definition get_cluster_status :: "'t env \<Rightarrow> world \<Rightarrow> (stop + string) \<times> world" where
  "get_cluster_status e w =
     (case run e ''pcs cluster status'' w of
        (Inl x, w') \<Rightarrow> (Inl x, w')
      | (Inr (rc, out, err), w') \<Rightarrow> (Inr (cluster_state_of out), w'))"

text \<open>Lines 122 to 125 of \<^verbatim>\<open>get_node_status\<close>: one list of fields per line.\<close>

definition node_rows :: "string \<Rightarrow> string list list" where
  "node_rows out = map (py_split CHR '':'') (py_splitlines out)"

definition get_node_status ::
  "'t env \<Rightarrow> string \<Rightarrow> world \<Rightarrow> (stop + string list list) \<times> world" where
  "get_node_status e node w =
     (let cmd = (if node = ''all'' then ''pcs cluster pcsd-status '' @ node
                 else ''pcs cluster pcsd-status'')
      in case run e cmd w of
           (Inl x, w') \<Rightarrow> (Inl x, w')
         | (Inr (rc, out, err), w') \<Rightarrow>
             if rc = 1 then (Inl (Fail_json (command_failed cmd err)), w')
             else (Inr (node_rows out), w'))"

definition clean_cluster :: "'t env \<Rightarrow> int \<Rightarrow> world \<Rightarrow> (stop + unit) \<times> world" where
  "clean_cluster e timeout w =
     (let cmd = ''pcs resource cleanup''
      in case run e cmd w of
           (Inl x, w') \<Rightarrow> (Inl x, w')
         | (Inr (rc, out, err), w') \<Rightarrow>
             if rc = 1 then (Inl (Fail_json (command_failed cmd err)), w')
             else (Inr (), w'))"


section \<open>Cluster-wide transition: \<^verbatim>\<open>set_cluster\<close>\<close>

text \<open>
  The polling loop of lines 152 to 156. Each round reads the clock, evaluates
  \<^verbatim>\<open>t + timeout\<close> and compares; the fuel bounds the number of rounds, and \<open>None\<close> is a
  loop that has not ended within the fuel.
\<close>

fun poll_cluster ::
  "('t::ord) env \<Rightarrow> nat \<Rightarrow> string \<Rightarrow> 't \<Rightarrow> int \<Rightarrow> world \<Rightarrow> ((stop + bool) \<times> world) option" where
  "poll_cluster e 0 state t timeout w = None"
| "poll_cluster e (Suc fuel) state t timeout w =
     (case now e w of
        (t', w1) \<Rightarrow>
          (case add_timeout e t timeout of
             Inl x \<Rightarrow> Some (Inl (Raise x), w1)
           | Inr deadline \<Rightarrow>
               if t' < deadline then
                 (case get_cluster_status e w1 of
                    (Inl x, w2) \<Rightarrow> Some (Inl x, w2)
                  | (Inr cluster_state, w2) \<Rightarrow>
                      if cluster_state = state then Some (Inr True, w2)
                      else poll_cluster e fuel state t timeout w2)
               else Some (Inr False, w1)))"

text \<open>Lines 150 to 158: \<^verbatim>\<open>t\<close> is a clock reading made after the dispatch.\<close>

definition await_cluster ::
  "('t::ord) env \<Rightarrow> nat \<Rightarrow> string \<Rightarrow> int \<Rightarrow> world \<Rightarrow> ((stop + unit) \<times> world) option" where
  "await_cluster e fuel state timeout w =
     (case now e w of
        (t, w0) \<Rightarrow>
          (case poll_cluster e fuel state t timeout w0 of
             None \<Rightarrow> None
           | Some (Inl x, w1) \<Rightarrow> Some (Inl x, w1)
           | Some (Inr ready, w1) \<Rightarrow>
               if \<not> ready then Some (Inl (Fail_json (failed_to_set state)), w1)
               else Some (Inr (), w1)))"

text \<open>
  Lines 136 to 148. The local \<^verbatim>\<open>cmd\<close> is bound only when the state is
  \<^verbatim>\<open>'online'\<close> or \<^verbatim>\<open>'offline'\<close>; reading it unbound raises.
\<close>

definition set_cluster ::
  "('t::ord) env \<Rightarrow> nat \<Rightarrow> string \<Rightarrow> int \<Rightarrow> bool \<Rightarrow> world \<Rightarrow> ((stop + unit) \<times> world) option" where
  "set_cluster e fuel state timeout force w =
     (case (if state = ''online'' then
              (case get_cluster_status e w of
                 (Inl x, wa) \<Rightarrow> (Inl x, wa)
               | (Inr current_status, wa) \<Rightarrow>
                   if current_status \<noteq> state then
                     (case run e ''pcs'' wa of
                        (Inl x, wb) \<Rightarrow> (Inl x, wb)
                      | (Inr r, wb) \<Rightarrow> (Inr (Some ''pcs cluster start''), wb))
                   else (Inr (Some ''pcs cluster start''), wa))
            else (Inr None, w)) of
        (Inl x, w1) \<Rightarrow> Some (Inl x, w1)
      | (Inr cmd1, w1) \<Rightarrow>
          (let cmd2 =
                 (if state = ''offline'' then
                    (let cmd = ''pcs cluster stop''
                     in Some (if force then cmd @ '' --force'' else cmd))
                  else cmd1)
           in case cmd2 of
                None \<Rightarrow> Some (Inl (Raise UnboundLocalError), w1)
              | Some cmd \<Rightarrow>
                  (case run e cmd w1 of
                     (Inl x, w2) \<Rightarrow> Some (Inl x, w2)
                   | (Inr (rc, out, err), w2) \<Rightarrow>
                       if rc = 1 then Some (Inl (Fail_json (command_failed cmd err)), w2)
                       else await_cluster e fuel state timeout w2)))"


section \<open>Node-wise transition: \<^verbatim>\<open>set_node\<close>\<close>

text \<open>
  The dispatch loop of lines 171 to 176. The loop assigns the extended command back to
  \<^verbatim>\<open>cmd\<close>, so the command is threaded through the rounds.
\<close>

fun dispatch_nodes ::
  "'t env \<Rightarrow> string \<Rightarrow> string option \<Rightarrow> string list list \<Rightarrow> world \<Rightarrow> (stop + unit) \<times> world" where
  "dispatch_nodes e state cmd [] w = (Inr (), w)"
| "dispatch_nodes e state cmd (node # nodes_state) w =
     (case node of
        n0 # n1 # rest \<Rightarrow>
          if py_lower (py_strip n1) \<noteq> state then
            (case cmd of
               None \<Rightarrow> (Inl (Raise UnboundLocalError), w)
             | Some c \<Rightarrow>
                 (let cmd' = c @ '' '' @ py_strip n0
                  in case run e cmd' w of
                       (Inl x, w') \<Rightarrow> (Inl x, w')
                     | (Inr (rc, out, err), w') \<Rightarrow>
                         if rc = 1 then (Inl (Fail_json (command_failed cmd' err)), w')
                         else dispatch_nodes e state (Some cmd') nodes_state w'))
          else dispatch_nodes e state cmd nodes_state w
      | _ \<Rightarrow> (Inl (Raise IndexError), w))"

text \<open>The inner loop of lines 182 to 185: is some line in the target state?\<close>

fun scan_ready :: "string \<Rightarrow> string list list \<Rightarrow> pyexc + bool" where
  "scan_ready state [] = Inr False"
| "scan_ready state (node # nodes_state) =
     (case node of
        n0 # n1 # rest \<Rightarrow>
          if py_lower (py_strip n1) = state then Inr True else scan_ready state nodes_state
      | _ \<Rightarrow> Inl IndexError)"

text \<open>
  The outer loop of lines 180 to 185. The \<^verbatim>\<open>break\<close> of line 185 leaves the inner loop
  only, so a round that finds a line in the target state sets \<^verbatim>\<open>ready\<close> and the outer
  loop goes on.
\<close>

fun poll_nodes ::
  "('t::ord) env \<Rightarrow> nat \<Rightarrow> string \<Rightarrow> 't \<Rightarrow> int \<Rightarrow> bool \<Rightarrow> world
     \<Rightarrow> ((stop + bool) \<times> world) option" where
  "poll_nodes e 0 state t timeout ready w = None"
| "poll_nodes e (Suc fuel) state t timeout ready w =
     (case now e w of
        (t', w1) \<Rightarrow>
          (case add_timeout e t timeout of
             Inl x \<Rightarrow> Some (Inl (Raise x), w1)
           | Inr deadline \<Rightarrow>
               if t' < deadline then
                 (case get_node_status e ''all'' w1 of
                    (Inl x, w2) \<Rightarrow> Some (Inl x, w2)
                  | (Inr nodes_state, w2) \<Rightarrow>
                      (case scan_ready state nodes_state of
                         Inl x \<Rightarrow> Some (Inl (Raise x), w2)
                       | Inr found \<Rightarrow> poll_nodes e fuel state t timeout (ready \<or> found) w2))
               else Some (Inr ready, w1)))"

text \<open>Lines 178 to 187.\<close>

definition await_nodes ::
  "('t::ord) env \<Rightarrow> nat \<Rightarrow> string \<Rightarrow> int \<Rightarrow> world \<Rightarrow> ((stop + unit) \<times> world) option" where
  "await_nodes e fuel state timeout w =
     (case now e w of
        (t, w0) \<Rightarrow>
          (case poll_nodes e fuel state t timeout False w0 of
             None \<Rightarrow> None
           | Some (Inl x, w1) \<Rightarrow> Some (Inl x, w1)
           | Some (Inr ready, w1) \<Rightarrow>
               if \<not> ready then Some (Inl (Fail_json (failed_to_set state)), w1)
               else Some (Inr (), w1)))"

definition set_node ::
  "('t::ord) env \<Rightarrow> nat \<Rightarrow> string \<Rightarrow> int \<Rightarrow> bool \<Rightarrow> string \<Rightarrow> world
     \<Rightarrow> ((stop + unit) \<times> world) option" where
  "set_node e fuel state timeout force node w =
     (let cmd1 = (if state = ''online'' then Some ''pcs cluster start'' else None);
          cmd2 =
            (if state = ''offline'' then
               (let cmd = ''pcs cluster stop''
                in Some (if force then cmd @ '' --force'' else cmd))
             else cmd1)
      in case get_node_status e node w of
           (Inl x, w1) \<Rightarrow> Some (Inl x, w1)
         | (Inr nodes_state, w1) \<Rightarrow>
             (case dispatch_nodes e state cmd2 nodes_state w1 of
                (Inl x, w2) \<Rightarrow> Some (Inl x, w2)
              | (Inr u, w2) \<Rightarrow> await_nodes e fuel state timeout w2))"


section \<open>The controller: \<^verbatim>\<open>main\<close>\<close>

text \<open>
  \<^verbatim>\<open>set_cluster\<close> is declared with four parameters and none has a default, so a call
  binds its positional arguments only when there are four of them; any other number
  raises before the body runs.
\<close>

definition set_cluster_params :: "string list" where
  "set_cluster_params = [''module'', ''state'', ''timeout'', ''force'']"

definition call_set_cluster ::
  "('t::ord) env \<Rightarrow> nat \<Rightarrow> string list \<Rightarrow> string \<Rightarrow> int \<Rightarrow> bool \<Rightarrow> world
     \<Rightarrow> ((stop + unit) \<times> world) option" where
  "call_set_cluster e fuel actuals state timeout force w =
     (if length actuals = length set_cluster_params
      then set_cluster e fuel state timeout force w
      else Some (Inl (Raise TypeError), w))"

text \<open>
  Lines 210 to 233, entered when the state is \<^verbatim>\<open>'online'\<close> or \<^verbatim>\<open>'offline'\<close>.
  Every path through the body of the loop of line 226 leaves the process, so the loop
  looks at the first line of the probe only; with no line at all the block ends without
  an exit.
\<close>

definition online_offline_block ::
  "('t::ord) env \<Rightarrow> nat \<Rightarrow> string \<Rightarrow> string option \<Rightarrow> bool \<Rightarrow> int \<Rightarrow> world
     \<Rightarrow> ((stop + unit) \<times> world) option" where
  "online_offline_block e fuel state node force timeout w =
     (case node of
        None \<Rightarrow>
          (case get_cluster_status e w of
             (Inl x, w1) \<Rightarrow> Some (Inl x, w1)
           | (Inr cluster_state, w1) \<Rightarrow>
               if cluster_state = state then Some (Inl (Exit_json False (Out_state cluster_state)), w1)
               else
                 (case call_set_cluster e fuel
                         [''module'', ''state'', ''timeout'', ''members'', ''force'']
                         state timeout force w1 of
                    None \<Rightarrow> None
                  | Some (Inl x, w2) \<Rightarrow> Some (Inl x, w2)
                  | Some (Inr u, w2) \<Rightarrow>
                      (case get_cluster_status e w2 of
                         (Inl x, w3) \<Rightarrow> Some (Inl x, w3)
                       | (Inr cluster_state', w3) \<Rightarrow>
                           if cluster_state' = state
                           then Some (Inl (Exit_json True (Out_state cluster_state')), w3)
                           else Some (Inl (Fail_json (''Fail to bring the cluster '' @ state)), w3))))
      | Some n \<Rightarrow>
          (case get_node_status e n w of
             (Inl x, w1) \<Rightarrow> Some (Inl x, w1)
           | (Inr cluster_state, w1) \<Rightarrow>
               (case cluster_state of
                  [] \<Rightarrow> Some (Inr (), w1)
                | node_state # others \<Rightarrow>
                    (case node_state of
                       n0 # n1 # rest \<Rightarrow>
                         if py_lower (py_strip n1) = state
                         then Some (Inl (Exit_json False (Out_nodes cluster_state)), w1)
                         else
                           (case call_set_cluster e fuel
                                   [''module'', ''state'', ''timeout'', ''force'']
                                   state timeout force w1 of
                              None \<Rightarrow> None
                            | Some (Inl x, w2) \<Rightarrow> Some (Inl x, w2)
                            | Some (Inr u, w2) \<Rightarrow>
                                (case get_node_status e n w2 of
                                   (Inl x, w3) \<Rightarrow> Some (Inl x, w3)
                                 | (Inr cluster_state', w3) \<Rightarrow>
                                     Some (Inl (Exit_json True (Out_nodes cluster_state')), w3)))
                     | _ \<Rightarrow> Some (Inl (Raise IndexError), w1)))))"

text \<open>Lines 235 to 246.\<close>

definition restart_block ::
  "('t::ord) env \<Rightarrow> nat \<Rightarrow> bool \<Rightarrow> int \<Rightarrow> world \<Rightarrow> ((stop + unit) \<times> world) option" where
  "restart_block e fuel force timeout w =
     (case call_set_cluster e fuel [''module'', ''state'', ''timeout'', ''force'']
             ''offline'' timeout force w of
        None \<Rightarrow> None
      | Some (Inl x, w1) \<Rightarrow> Some (Inl x, w1)
      | Some (Inr u, w1) \<Rightarrow>
          (case get_cluster_status e w1 of
             (Inl x, w2) \<Rightarrow> Some (Inl x, w2)
           | (Inr cluster_state, w2) \<Rightarrow>
               if cluster_state = ''offline'' then
                 (case call_set_cluster e fuel [''module'', ''state'', ''timeout'', ''force'']
                         ''online'' timeout force w2 of
                    None \<Rightarrow> None
                  | Some (Inl x, w3) \<Rightarrow> Some (Inl x, w3)
                  | Some (Inr u', w3) \<Rightarrow>
                      (case get_cluster_status e w3 of
                         (Inl x, w4) \<Rightarrow> Some (Inl x, w4)
                       | (Inr cluster_state', w4) \<Rightarrow>
                           if cluster_state' = ''online''
                           then Some (Inl (Exit_json True (Out_state cluster_state')), w4)
                           else Some (Inl (Fail_json cant_be_started), w4)))
               else Some (Inl (Fail_json cant_be_stopped), w2)))"

text \<open>Lines 248 to 252.\<close>

definition cleanup_block ::
  "'t env \<Rightarrow> int \<Rightarrow> world \<Rightarrow> ((stop + unit) \<times> world) option" where
  "cleanup_block e timeout w =
     (case clean_cluster e timeout w of
        (Inl x, w1) \<Rightarrow> Some (Inl x, w1)
      | (Inr u, w1) \<Rightarrow>
          (case get_cluster_status e w1 of
             (Inl x, w2) \<Rightarrow> Some (Inl x, w2)
           | (Inr cluster_state, w2) \<Rightarrow>
               Some (Inl (Exit_json True (Out_state cluster_state)), w2)))"

text \<open>
  Lines 203 to 252, the part of \<^verbatim>\<open>main\<close> that follows the construction of the module:
  the three tests on the state follow one another; a block that ends without leaving the
  process is followed by the next test. The parameters are the entries of
  \<^verbatim>\<open>module.params\<close>; an absent state or node is \<open>None\<close>. This is a part of
  \<^verbatim>\<open>main\<close>, not the entry point: \<^verbatim>\<open>main\<close> comes here only after lines 191 to 202.
\<close>

definition main_body ::
  "('t::ord) env \<Rightarrow> nat \<Rightarrow> string option \<Rightarrow> string option \<Rightarrow> bool \<Rightarrow> int \<Rightarrow> string list option
     \<Rightarrow> world \<Rightarrow> ((stop + unit) \<times> world) option" where
  "main_body e fuel state node force timeout members w =
     (case (if state = Some ''online'' \<or> state = Some ''offline''
            then online_offline_block e fuel (the state) node force timeout w
            else Some (Inr (), w)) of
        None \<Rightarrow> None
      | Some (Inl x, w1) \<Rightarrow> Some (Inl x, w1)
      | Some (Inr u, w1) \<Rightarrow>
          (case (if state = Some ''restart'' then restart_block e fuel force timeout w1
                 else Some (Inr (), w1)) of
             None \<Rightarrow> None
           | Some (Inl x, w2) \<Rightarrow> Some (Inl x, w2)
           | Some (Inr u', w2) \<Rightarrow>
               (if state = Some ''cleanup'' then cleanup_block e timeout w2
                else Some (Inr (), w2))))"

text \<open>
  Lines 191 to 202. The builtin \<^verbatim>\<open>list\<close> takes no keyword argument; the entries of the
  argument specification are evaluated in the order written. \<^verbatim>\<open>AnsibleModule\<close> is not
  part of this repository: what it makes of the specification is a parameter.
\<close>

definition py_list_call :: "(string \<times> string) list \<Rightarrow> pyexc + string list" where
  "py_list_call kwargs = (if kwargs = [] then Inr [] else Inl TypeError)"

datatype spec_entry = Spec_dict "(string \<times> string) list" | Spec_list "string list"

definition argument_spec :: "pyexc + (string \<times> spec_entry) list" where
  "argument_spec =
     (let state = Spec_dict [(''type'', ''str''), (''choices'', ''online offline restart cleanup'')];
          node = Spec_dict [(''type'', ''str'')];
          timeout = Spec_dict [(''type'', ''int''), (''default'', ''300'')];
          force = Spec_dict [(''type'', ''bool''), (''default'', ''True'')]
      in case py_list_call [(''type'', ''bool''), (''elements'', ''str'')] of
           Inl x \<Rightarrow> Inl x
         | Inr members \<Rightarrow>
             Inr [(''state'', state), (''node'', node), (''timeout'', timeout),
                  (''force'', force), (''members'', Spec_list members)])"

record params =
  p_state :: "string option"
  p_node :: "string option"
  p_force :: bool
  p_timeout :: int
  p_members :: "string list option"

definition main ::
  "((string \<times> spec_entry) list \<Rightarrow> stop + params) \<Rightarrow> ('t::ord) env \<Rightarrow> nat \<Rightarrow> world
     \<Rightarrow> ((stop + unit) \<times> world) option" where
  "main ansible_module e fuel w =
     (case argument_spec of
        Inl x \<Rightarrow> Some (Inl (Raise x), w)
      | Inr spec \<Rightarrow>
          (case ansible_module spec of
             Inl x \<Rightarrow> Some (Inl x, w)
           | Inr p \<Rightarrow>
               main_body e fuel (p_state p) (p_node p) (p_force p) (p_timeout p) (p_members p) w))"


section \<open>What the probes see\<close>

text \<open>
  What the two status queries of the polling loops read from the environment when they
  are the k-th command run: the state the cluster query is classified as, and the lines
  the node query reports. \<open>None\<close> is a query that ends the run: \<^verbatim>\<open>run_command\<close> fails, or
  the node query exits with status 1.
\<close>

definition cluster_probe :: "'t env \<Rightarrow> nat \<Rightarrow> string option" where
  "cluster_probe e k =
     (case run_command e k ''pcs cluster status'' of
        Inl msg \<Rightarrow> None
      | Inr (rc, out, err) \<Rightarrow> Some (cluster_state_of out))"



section \<open>Scenarios\<close>

text \<open>
  A world in which nothing has run yet; an environment in which every command completes
  with an answer that depends on the command text only, whose clock advances one second
  with each reading and whose sums are exact; and a module constructed with given
  parameters.
\<close>

definition fresh :: world where
  "fresh = \<lparr>cmds = [], ticks = 0\<rparr>"

definition scripted :: "(string \<Rightarrow> int \<times> string \<times> string) \<Rightarrow> real env" where
  "scripted answer =
     \<lparr>run_command = \<lambda>k cmd. Inr (answer cmd), time_time = \<lambda>k. real k,
      add_timeout = \<lambda>t n. Inr (t + of_int n)\<rparr>"

definition accepting :: "params \<Rightarrow> (string \<times> spec_entry) list \<Rightarrow> stop + params" where
  "accepting p spec = Inr p"

text \<open>A host on which \<^verbatim>\<open>pcs\<close> cannot be executed.\<close>

definition no_pcs :: "real env" where
  "no_pcs =
     \<lparr>run_command = \<lambda>k cmd. Inl ''[Errno 2] No such file or directory'',
      time_time = \<lambda>k. real k, add_timeout = \<lambda>t n. Inr (t + of_int n)\<rparr>"



text \<open>Two nodes, both offline, at every node query.\<close>

definition both_offline :: "real env" where
  "both_offline = scripted (\<lambda>cmd. (0, ''a: Offline'' @ [CHR 0x0A] @ ''b: Offline'' @ [CHR 0x0A], []))"

text \<open>
  A cluster that is up with one node whose daemon is reported offline at every query.
\<close>

definition node_down :: "real env" where
  "node_down = scripted (\<lambda>cmd. if cmd = ''pcs cluster status'' then (0, ''Cluster name: demo'', [])
                          else (0, ''node1: Offline'', []))"

text \<open>
  A cluster whose forced stop exits with status 1, and one that is down and whose start
  exits with status 1.
\<close>

definition stop_fails :: "real env" where
  "stop_fails = scripted (\<lambda>cmd. if cmd = ''pcs cluster stop --force'' then (1, [], ''Error: busy'')
                           else (0, PCS_CLUSTER_DOWN, []))"

definition start_fails :: "real env" where
  "start_fails = scripted (\<lambda>cmd. if cmd = ''pcs cluster start'' then (1, [], ''Error: no quorum'')
                            else (0, PCS_CLUSTER_DOWN, []))"

text \<open>
  A cluster whose forced stop exits with status 2. The commands before the fifth print
  nothing, the later ones a status report.
\<close>

definition stop_exits_2 :: "real env" where
  "stop_exits_2 =
     \<lparr>run_command = \<lambda>k cmd.
        Inr (if cmd = ''pcs cluster stop --force'' then (2, [], ''Error: unable to stop'')
             else if k < 4 then (0, [], [])
             else (0, ''Cluster name: demo'', [])),
      time_time = \<lambda>k. real k, add_timeout = \<lambda>t n. Inr (t + of_int n)\<rparr>"

section \<open>Text operations\<close>

lemma starts_with_iff: "starts_with xs ys \<longleftrightarrow> (\<exists>ss. ys = xs @ ss)"
  by (induction xs ys rule: starts_with.induct) auto

text \<open>\<^const>\<open>py_in\<close> is the substring relation.\<close>

lemma py_in_iff: "py_in xs ys \<longleftrightarrow> (\<exists>ps ss. ys = ps @ xs @ ss)"
proof (induction ys)
  case Nil
  then show ?case by auto
next
  case (Cons y ys)
  show ?case
  proof
    assume "py_in xs (y # ys)"
    then consider "starts_with xs (y # ys)" | "py_in xs ys" by auto
    then show "\<exists>ps ss. y # ys = ps @ xs @ ss"
    proof cases
      case 1
      then obtain ss where "y # ys = xs @ ss" using starts_with_iff by blast
      then have "y # ys = [] @ xs @ ss" by simp
      then show ?thesis by blast
    next
      case 2
      then obtain ps ss where "ys = ps @ xs @ ss" using Cons.IH by blast
      then have "y # ys = (y # ps) @ xs @ ss" by simp
      then show ?thesis by blast
    qed
  next
    assume "\<exists>ps ss. y # ys = ps @ xs @ ss"
    then obtain ps ss where eq: "y # ys = ps @ xs @ ss" by blast
    show "py_in xs (y # ys)"
    proof (cases ps)
      case Nil
      with eq have "starts_with xs (y # ys)" using starts_with_iff by auto
      then show ?thesis by simp
    next
      case (Cons p ps')
      with eq have "ys = ps' @ xs @ ss" by simp
      then have "py_in xs ys" using Cons.IH by blast
      then show ?thesis by simp
    qed
  qed
qed


section \<open>The entry point\<close>

text \<open>
  Claim C1. Whatever the invocation, \<^const>\<open>main\<close> ends with a \<^const>\<open>TypeError\<close>
  raised while the argument specification is built: the world is left as it was found (no
  command has run, the clock has not been read), whatever \<^verbatim>\<open>AnsibleModule\<close> would have
  made of the specification, so the run ends neither in \<^verbatim>\<open>exit_json\<close> nor in
  \<^verbatim>\<open>fail_json\<close>.
\<close>

theorem main_raises_type_error:
  "main ansible_module e fuel w = Some (Inl (Raise TypeError), w)"
  by (simp add: main_def argument_spec_def py_list_call_def)


section \<open>The cluster-wide probe\<close>

lemma get_cluster_status_probe:
  "cluster_probe e (length (cmds w)) = Some s \<Longrightarrow>
     get_cluster_status e w = (Inr s, w\<lparr>cmds := cmds w @ [''pcs cluster status'']\<rparr>)"
  by (auto simp: cluster_probe_def get_cluster_status_def run_def split: sum.splits prod.splits)

lemma cluster_state_of_cases: "cluster_state_of out = ''online'' \<or> cluster_state_of out = ''offline''"
  by (simp add: cluster_state_of_def)

lemma demo_online: "cluster_state_of ''Cluster name: demo'' = ''online''"
  by (simp add: cluster_state_of_def PCS_CLUSTER_DOWN_def)

lemma empty_offline: "cluster_state_of [] = ''offline''"
  by (simp add: cluster_state_of_def PCS_CLUSTER_DOWN_def)

text \<open>
  Claim C2. The probe at two outputs: an empty output, which does not contain the marker,
  is classified offline (the empty text occurs in the marker), and the marker followed by
  a line feed, which contains the marker, is classified online.
\<close>

theorem get_cluster_status_marker_reversed:
  "fst (get_cluster_status (scripted (\<lambda>cmd. (0, [], []))) fresh) = Inr ''offline'' \<and>
   fst (get_cluster_status (scripted (\<lambda>cmd. (1, PCS_CLUSTER_DOWN @ [CHR 0x0A], []))) fresh)
     = Inr ''online''"
  by (simp add: get_cluster_status_def run_def scripted_def fresh_def cluster_state_of_def
      PCS_CLUSTER_DOWN_def)

text \<open>
  Claim C10, as the claim states it, fails: where \<^verbatim>\<open>pcs\<close> cannot be executed,
  \<^verbatim>\<open>run_command\<close> calls \<^verbatim>\<open>fail_json\<close> and the probe ends in that failure.
\<close>

theorem get_cluster_status_fails_without_pcs:
  "get_cluster_status no_pcs fresh =
     (Inl (Fail_json ''[Errno 2] No such file or directory''),
      \<lparr>cmds = [''pcs cluster status''], ticks = 0\<rparr>)"
  by (simp add: get_cluster_status_def run_def no_pcs_def fresh_def)

text \<open>
  Claim C10, amended. Whenever the query command completes, with whatever exit status and
  error text, the probe returns \<^verbatim>\<open>'online'\<close> or \<^verbatim>\<open>'offline'\<close>, and the answer is
  that of the standard output alone; the only command it runs is the query.
\<close>

theorem get_cluster_status_ignores_status:
  assumes "run_command e (length (cmds w)) ''pcs cluster status'' = Inr (rc, out, err)"
  shows "get_cluster_status e w =
           (Inr (cluster_state_of out), w\<lparr>cmds := cmds w @ [''pcs cluster status'']\<rparr>) \<and>
         (cluster_state_of out = ''online'' \<or> cluster_state_of out = ''offline'')"
  using assms by (simp add: get_cluster_status_def run_def cluster_state_of_cases)

theorem get_cluster_status_ignores_status_witness:
  "get_cluster_status (scripted (\<lambda>cmd. (1, ''Cluster name: demo'', ''Error: no quorum''))) fresh =
     (Inr ''online'', \<lparr>cmds = [''pcs cluster status''], ticks = 0\<rparr>)"
proof -
  have "run_command (scripted (\<lambda>cmd. (1, ''Cluster name: demo'', ''Error: no quorum'')))
          (length (cmds fresh)) ''pcs cluster status''
        = Inr (1, ''Cluster name: demo'', ''Error: no quorum'')"
    by (simp add: scripted_def)
  from get_cluster_status_ignores_status [OF this]
  show ?thesis by (simp add: demo_online fresh_def)
qed


section \<open>Cluster-scope requests\<close>

text \<open>
  The code of lines 210 to 215, run on given parameters: where the probe answers the
  requested state, it exits with \<^verbatim>\<open>changed=False\<close> after the probe alone.
\<close>

lemma controller_cluster_scope_already_there:
  assumes "state = ''online'' \<or> state = ''offline''"
      and "cluster_probe e (length (cmds w)) = Some state"
  shows "main_body e fuel (Some state) None force timeout members w =
     Some (Inl (Exit_json False (Out_state state)), w\<lparr>cmds := cmds w @ [''pcs cluster status'']\<rparr>)"
  using assms
  by (auto simp add: main_body_def online_offline_block_def get_cluster_status_probe)

text \<open>
  Claim C9. A request for \<^verbatim>\<open>'online'\<close> with no node, on a cluster whose query is
  classified online: \<^const>\<open>main\<close> ends with the \<^const>\<open>TypeError\<close> of line 196, no
  probe is made and no exit with \<^verbatim>\<open>changed=False\<close> happens.
\<close>

theorem cluster_scope_request_raises:
  "main (accepting \<lparr>p_state = Some ''online'', p_node = None, p_force = True, p_timeout = 300,
                    p_members = None\<rparr>)
     (scripted (\<lambda>cmd. (0, ''Cluster name: demo'', []))) 0 fresh
   = Some (Inl (Raise TypeError), fresh)"
  by (simp add: main_def argument_spec_def py_list_call_def)

text \<open>
  Claim C3. A request for \<^verbatim>\<open>'offline'\<close> with no node, made where the probe answers
  \<^verbatim>\<open>'online'\<close>: the call of line 217 passes five arguments to \<^verbatim>\<open>set_cluster\<close>, the
  run ends with a \<^const>\<open>TypeError\<close>, and the probe is the only command that has run.
\<close>

theorem cluster_scope_transition_raises:
  "main_body (scripted (\<lambda>cmd. (0, ''Cluster name: demo'', []))) 10 (Some ''offline'') None True
     300 None fresh
   = Some (Inl (Raise TypeError), \<lparr>cmds = [''pcs cluster status''], ticks = 0\<rparr>)"
  by (simp add: main_body_def online_offline_block_def get_cluster_status_def run_def scripted_def
      fresh_def call_set_cluster_def set_cluster_params_def cluster_state_of_def
      PCS_CLUSTER_DOWN_def)


section \<open>Node-scope requests\<close>

lemma node1_rows: "node_rows ''node1: Offline'' = [[''node1'', '' Offline'']]"
  by code_simp


lemma strip_lower_offline: "py_lower (py_strip '' Offline'') = ''offline''" by code_simp

text \<open>
  Claim C4. A request for \<^verbatim>\<open>'online'\<close> on node \<open>node1\<close>, reported offline.
  \<^const>\<open>main\<close> ends with the \<^const>\<open>TypeError\<close> of line 196 before any probe. The
  code of lines 223 to 233, run on these parameters, calls \<^verbatim>\<open>set_cluster\<close>: the
  transition is the cluster-wide one (a start command that names no node, then polling of
  the cluster query), and the run exits with \<^verbatim>\<open>changed=True\<close> while the node is still
  reported offline.
\<close>

theorem node_scope_runs_cluster_transition:
  "main (accepting \<lparr>p_state = Some ''online'', p_node = Some ''node1'', p_force = True,
                    p_timeout = 5, p_members = None\<rparr>) node_down (Suc 0) fresh
     = Some (Inl (Raise TypeError), fresh) \<and>
   main_body node_down (Suc 0) (Some ''online'') (Some ''node1'') True 5 None fresh =
     Some (Inl (Exit_json True (Out_nodes [[''node1'', '' Offline'']])),
           \<lparr>cmds = [''pcs cluster pcsd-status'', ''pcs cluster status'', ''pcs cluster start'',
                    ''pcs cluster status'', ''pcs cluster pcsd-status''],
            ticks = 2\<rparr>)"
proof
  show "main (accepting \<lparr>p_state = Some ''online'', p_node = Some ''node1'', p_force = True,
                    p_timeout = 5, p_members = None\<rparr>) node_down (Suc 0) fresh
     = Some (Inl (Raise TypeError), fresh)"
    by (simp add: main_def argument_spec_def py_list_call_def)
  show "main_body node_down (Suc 0) (Some ''online'') (Some ''node1'') True 5 None fresh =
     Some (Inl (Exit_json True (Out_nodes [[''node1'', '' Offline'']])),
           \<lparr>cmds = [''pcs cluster pcsd-status'', ''pcs cluster status'', ''pcs cluster start'',
                    ''pcs cluster status'', ''pcs cluster pcsd-status''],
            ticks = 2\<rparr>)"
    using node1_rows strip_lower_offline demo_online
    by (simp add: main_body_def online_offline_block_def get_node_status_def call_set_cluster_def
        set_cluster_params_def set_cluster_def run_def await_cluster_def now_def
        get_cluster_status_def node_down_def scripted_def fresh_def)
qed


section \<open>Restart\<close>

text \<open>
  Claim C7. Restart requests. Where the forced stop exits with status 1 and where the
  start exits with status 1, \<^const>\<open>main\<close> ends alike, with the \<^const>\<open>TypeError\<close> of
  line 196 and no command run: the failure does not tell the phases apart. Where the
  forced stop exits with status 2, the code of lines 235 to 246, run on the parameters of
  the request, does not take the exit status for a failure (line 147 tests for status 1):
  polling reads an empty output, classified offline, the start command is dispatched and
  the run exits with \<^verbatim>\<open>changed=True\<close>.
\<close>

theorem restart_starts_after_failed_stop:
  "main (accepting \<lparr>p_state = Some ''restart'', p_node = None, p_force = True, p_timeout = 5,
                    p_members = None\<rparr>) stop_fails (Suc 0) fresh
     = Some (Inl (Raise TypeError), fresh) \<and>
   main (accepting \<lparr>p_state = Some ''restart'', p_node = None, p_force = True, p_timeout = 5,
                    p_members = None\<rparr>) start_fails (Suc 0) fresh
     = Some (Inl (Raise TypeError), fresh) \<and>
   main_body stop_exits_2 (Suc 0) (Some ''restart'') None True 5 None fresh =
     Some (Inl (Exit_json True (Out_state ''online'')),
           \<lparr>cmds = [''pcs cluster stop --force'', ''pcs cluster status'', ''pcs cluster status'',
                    ''pcs cluster status'', ''pcs'', ''pcs cluster start'', ''pcs cluster status'',
                    ''pcs cluster status''],
            ticks = 4\<rparr>)"
proof (intro conjI)
  show "main (accepting \<lparr>p_state = Some ''restart'', p_node = None, p_force = True, p_timeout = 5,
                    p_members = None\<rparr>) stop_fails (Suc 0) fresh
     = Some (Inl (Raise TypeError), fresh)"
    by (simp add: main_def argument_spec_def py_list_call_def)
  show "main (accepting \<lparr>p_state = Some ''restart'', p_node = None, p_force = True, p_timeout = 5,
                    p_members = None\<rparr>) start_fails (Suc 0) fresh
     = Some (Inl (Raise TypeError), fresh)"
    by (simp add: main_def argument_spec_def py_list_call_def)
  show "main_body stop_exits_2 (Suc 0) (Some ''restart'') None True 5 None fresh =
     Some (Inl (Exit_json True (Out_state ''online'')),
           \<lparr>cmds = [''pcs cluster stop --force'', ''pcs cluster status'', ''pcs cluster status'',
                    ''pcs cluster status'', ''pcs'', ''pcs cluster start'', ''pcs cluster status'',
                    ''pcs cluster status''],
            ticks = 4\<rparr>)"
    using demo_online empty_offline
    by (simp add: main_body_def restart_block_def call_set_cluster_def
        set_cluster_params_def set_cluster_def run_def await_cluster_def now_def
        get_cluster_status_def stop_exits_2_def fresh_def)
qed


section \<open>Node-wise dispatch\<close>

text \<open>
  Claim C6. \<^verbatim>\<open>set_node\<close> for \<^verbatim>\<open>'online'\<close> with two nodes offline: the first
  command names node \<open>a\<close>, the second names \<open>a\<close> and \<open>b\<close>, since line 173 extends the
  command of the round before.
\<close>

theorem set_node_commands_accumulate:
  "set_node both_offline (Suc 0) ''online'' 0 True ''all'' fresh =
     Some (Inl (Fail_json (failed_to_set ''online'')),
           \<lparr>cmds = [''pcs cluster pcsd-status all'', ''pcs cluster start a'',
                    ''pcs cluster start a b''],
            ticks = 2\<rparr>)"
proof -
  have rows: "node_rows (''a: Offline'' @ [CHR 0x0A] @ ''b: Offline'' @ [CHR 0x0A])
      = [[''a'', '' Offline''], [''b'', '' Offline'']]"
    by code_simp
  have names: "py_strip ''a'' = ''a''" "py_strip ''b'' = ''b''"
    by code_simp+
  show ?thesis
    using rows names strip_lower_offline
    by (simp add: set_node_def get_node_status_def run_def await_nodes_def now_def
        both_offline_def scripted_def fresh_def)
qed


section \<open>The polling loops\<close>







section \<open>Node-wise polling\<close>







section \<open>Polling that never sees the target\<close>




end
